theory Spec2Isabelle
  imports Main "HOL-Library.Multiset"
begin

section \<open>Errors and effectful computations\<close>

text \<open>
  A thrown JavaScript \<open>Error\<close> is a value carrying its message. An asynchronous method
  of a service is a function from the state it works on to its outcome (\<open>Inl\<close> the thrown
  error, \<open>Inr\<close> the returned value) paired with the state it leaves behind. Logging has
  no influence on any result and is left out.
\<close>

datatype error = Error string

fun message :: "error \<Rightarrow> string" where
  "message (Error m) = m"

type_synonym ('a, 's) io = "'s \<Rightarrow> (error + 'a) \<times> 's"

definition returnE :: "'a \<Rightarrow> ('a, 's) io" where
  "returnE x = (\<lambda>s. (Inr x, s))"

definition throwE :: "string \<Rightarrow> ('a, 's) io" where
  "throwE m = (\<lambda>s. (Inl (Error m), s))"

definition rethrowE :: "error \<Rightarrow> ('a, 's) io" where
  "rethrowE e = (\<lambda>s. (Inl e, s))"

definition bindE :: "('a, 's) io \<Rightarrow> ('a \<Rightarrow> ('b, 's) io) \<Rightarrow> ('b, 's) io" where
  "bindE m f = (\<lambda>s. case m s of (Inl e, s') \<Rightarrow> (Inl e, s') | (Inr x, s') \<Rightarrow> f x s')"

definition catchE :: "('a, 's) io \<Rightarrow> (error \<Rightarrow> ('a, 's) io) \<Rightarrow> ('a, 's) io" where
  "catchE m h = (\<lambda>s. case m s of (Inl e, s') \<Rightarrow> h e s' | (Inr x, s') \<Rightarrow> (Inr x, s'))"

text \<open>JavaScript truthiness of an optional string: \<open>undefined\<close> and \<open>''\<close> are falsy.\<close>

fun truthy :: "string option \<Rightarrow> bool" where
  "truthy None = False"
| "truthy (Some s) = (s \<noteq> [])"

section \<open>UUID v7 validation (uuid7.class.ts)\<close>

definition isHexDigit :: "char \<Rightarrow> bool" where
  "isHexDigit c = (c \<in> set ''0123456789abcdefABCDEF'')"

text \<open>
  \<open>UUID7.isValid\<close>: the regular expression
  \<^verbatim>\<open>/^[0-9a-f]{8}-[0-9a-f]{4}-7[0-9a-f]{3}-[89ab][0-9a-f]{3}-[0-9a-f]{12}$/i\<close>
  matches exactly the strings of 36 characters with that layout.
\<close>

definition UUID7_isValid :: "string \<Rightarrow> bool" where
  "UUID7_isValid v =
     (length v = 36
      \<and> list_all isHexDigit (take 8 v)
      \<and> v ! 8 = CHR ''-''
      \<and> list_all isHexDigit (take 4 (drop 9 v))
      \<and> v ! 13 = CHR ''-''
      \<and> v ! 14 = CHR ''7''
      \<and> list_all isHexDigit (take 3 (drop 15 v))
      \<and> v ! 18 = CHR ''-''
      \<and> v ! 19 \<in> set ''89abAB''
      \<and> list_all isHexDigit (take 3 (drop 20 v))
      \<and> v ! 23 = CHR ''-''
      \<and> list_all isHexDigit (take 12 (drop 24 v)))"

section \<open>Data model (secrets.types.ts, security.interfaces.ts, secrets interfaces)\<close>

datatype KeyStatus = ACTIVE | ROTATING | ARCHIVED | EXPIRED

datatype ProviderStatus = HEALTHY | UNHEALTHY | CONNECTING | DISCONNECTED

datatype SecretsProviderType =
  VAULT | AWS_SECRETS_MANAGER | AZURE_KEY_VAULT | GCP_SECRET_MANAGER | LOCAL

text \<open>Dates are epoch milliseconds; an optional field is an \<open>option\<close>.\<close>

record EncryptedData =
  ed_ciphertext :: string
  ed_iv :: "string option"
  ed_algorithm :: "string option"
  ed_keyId :: string

record KeyInfo =
  ki_id :: string
  ki_algorithm :: string
  ki_keySize :: int
  ki_status :: KeyStatus
  ki_createdAt :: int
  ki_expiresAt :: "int option"
  ki_rotationDate :: "int option"
  ki_archivedAt :: "int option"

record SecretMetadata =
  sm_id :: string
  sm_name :: string
  sm_path :: string
  sm_size :: int
  sm_createdAt :: int
  sm_updatedAt :: int
  sm_expiresAt :: "int option"
  sm_tags :: "(string \<times> string) list option"

text \<open>
  \<open>SecretData\<close> declares \<open>metadata\<close> as required, but the values read back from the
  backend are untyped and the provider itself tests \<open>secret.metadata\<close> for presence, so
  the field is optional here.
\<close>

record SecretData =
  sd_value :: "string option"
  sd_encryptedData :: "EncryptedData option"
  sd_metadata :: "SecretMetadata option"

record VaultSecretMetadata =
  vm_id :: string
  vm_tenantId :: string
  vm_name :: string
  vm_size :: int
  vm_createdAt :: int
  vm_updatedAt :: int
  vm_expiresAt :: "int option"
  vm_tags :: "(string \<times> string) list option"

record EncryptionKey =
  ek_id :: string
  ek_tenantId :: string
  ek_keyId :: string
  ek_status :: KeyStatus
  ek_algorithm :: string
  ek_keySize :: int
  ek_createdAt :: int
  ek_expiresAt :: "int option"
  ek_rotationDate :: "int option"
  ek_archivedAt :: "int option"

record SecretResponse =
  sr_id :: string
  sr_tenantId :: string
  sr_name :: string
  sr_value :: "string option"
  sr_encryptedData :: "string option"
  sr_keyId :: "string option"
  sr_algorithm :: "string option"
  sr_iv :: "string option"
  sr_metadata :: VaultSecretMetadata

record RotateKeyRequest =
  rq_tenantId :: string
  rq_force :: "bool option"

record KeyRotationResponse =
  kr_oldKeyId :: string
  kr_newKeyId :: string
  kr_rotationDate :: int
  kr_archivedKeys :: "EncryptionKey list"

record SecretListResponse =
  sl_tenantId :: string
  sl_secrets :: "VaultSecretMetadata list"
  sl_totalCount :: int

record KeyListResponse =
  kl_tenantId :: string
  kl_keys :: "EncryptionKey list"
  kl_activeKeyId :: string
  kl_totalCount :: int

record TenantPaths =
  tp_secrets :: string
  tp_encryptionKeys :: string
  tp_keyRotation :: string

section \<open>The secrets provider interface (secrets-provider.interface.ts)\<close>

text \<open>
  \<open>ISecretsProvider\<close>, restricted to the methods the engine calls. The provider's own
  state has type \<open>'s\<close>; every method may fail and may change that state.
  \<open>getTenantPaths\<close> is synchronous and pure.
\<close>

record 's ISecretsProvider =
  getSecret_p :: "string \<Rightarrow> (SecretData, 's) io"
  setSecret_p :: "string \<Rightarrow> SecretData \<Rightarrow> (unit, 's) io"
  deleteSecret_p :: "string \<Rightarrow> (unit, 's) io"
  listSecrets_p :: "string \<Rightarrow> (SecretMetadata list, 's) io"
  encrypt_p :: "string \<Rightarrow> string \<Rightarrow> string option \<Rightarrow> (EncryptedData, 's) io"
  decrypt_p :: "EncryptedData \<Rightarrow> (string, 's) io"
  createKey_p :: "string \<Rightarrow> string option \<Rightarrow> int option \<Rightarrow> (KeyInfo, 's) io"
  listKeys_p :: "(KeyInfo list, 's) io"
  deleteKey_p :: "string \<Rightarrow> (unit, 's) io"
  getTenantPaths_p :: "string \<Rightarrow> TenantPaths"

section \<open>The key and secret management engine (security.service.ts)\<close>

text \<open>
  \<open>SecurityService\<close> is constructed from a provider and the UUID service. The UUID
  library is outside the repository: \<open>generateV7\<close> is the sequence of identifiers it
  hands out, and the engine's state counts how many have been drawn. The current time
  (\<open>new Date()\<close>) is the argument \<open>now\<close> of each operation.

  \<open>Array.prototype.sort\<close> belongs to the JavaScript runtime the service runs on, not to
  the repository: \<open>arraySort\<close> is the runtime's sort, taking the comparator (a result of
  \<open>NaN\<close> is \<open>None\<close>) and the array.
\<close>

record 's SecurityService =
  secretsProvider :: "'s ISecretsProvider"
  generateV7 :: "nat \<Rightarrow> string"
  arraySort :: "(EncryptionKey \<Rightarrow> EncryptionKey \<Rightarrow> int option)
                  \<Rightarrow> EncryptionKey list \<Rightarrow> EncryptionKey list"

record 's world =
  w_provider :: 's
  w_uuids :: nat

definition liftP :: "('a, 's) io \<Rightarrow> ('a, 's world) io" where
  "liftP m = (\<lambda>w. case m (w_provider w) of (r, s') \<Rightarrow> (r, w\<lparr>w_provider := s'\<rparr>))"

definition uuid_generateV7 :: "'s SecurityService \<Rightarrow> (string, 's world) io" where
  "uuid_generateV7 S = (\<lambda>w. (Inr (generateV7 S (w_uuids w)), w\<lparr>w_uuids := Suc (w_uuids w)\<rparr>))"

definition DEFAULT_KEY_SIZE :: int where "DEFAULT_KEY_SIZE = 256"
definition DEFAULT_ALGORITHM :: string where "DEFAULT_ALGORITHM = ''aes256-gcm96''"
definition MAX_ARCHIVED_KEYS :: nat where "MAX_ARCHIVED_KEYS = 3"

definition validateUUID7 :: "string \<Rightarrow> (unit, 'w) io" where
  "validateUUID7 uuid =
     (if \<not> UUID7_isValid uuid then throwE (''Invalid UUID v7 format: '' @ uuid)
      else returnE ())"

definition convertToVaultMetadata :: "SecretMetadata \<Rightarrow> VaultSecretMetadata" where
  "convertToVaultMetadata metadata =
     \<lparr> vm_id = sm_id metadata,
       vm_tenantId = sm_id metadata,
       vm_name = sm_name metadata,
       vm_size = sm_size metadata,
       vm_createdAt = sm_createdAt metadata,
       vm_updatedAt = sm_updatedAt metadata,
       vm_expiresAt = sm_expiresAt metadata,
       vm_tags = sm_tags metadata \<rparr>"

definition convertToEncryptionKey :: "KeyInfo \<Rightarrow> EncryptionKey" where
  "convertToEncryptionKey keyInfo =
     \<lparr> ek_id = ki_id keyInfo,
       ek_tenantId = [],
       ek_keyId = ki_id keyInfo,
       ek_status = ki_status keyInfo,
       ek_algorithm = ki_algorithm keyInfo,
       ek_keySize = ki_keySize keyInfo,
       ek_createdAt = ki_createdAt keyInfo,
       ek_expiresAt = ki_expiresAt keyInfo,
       ek_rotationDate = ki_rotationDate keyInfo,
       ek_archivedAt = ki_archivedAt keyInfo \<rparr>"

text \<open>
  \<open>getAllKeys\<close> derives the tenant's paths but never uses them: it lists every key of
  the provider, and a failure of \<open>listKeys\<close> is swallowed as "no keys".
\<close>

definition getAllKeys :: "'s SecurityService \<Rightarrow> string \<Rightarrow> (EncryptionKey list, 's world) io" where
  "getAllKeys S tenantId =
     catchE (bindE (liftP (listKeys_p (secretsProvider S)))
               (\<lambda>keyData. returnE (map convertToEncryptionKey keyData)))
            (\<lambda>e. returnE [])"

definition getActiveKey :: "'s SecurityService \<Rightarrow> string \<Rightarrow> (EncryptionKey option, 's world) io" where
  "getActiveKey S tenantId =
     bindE (getAllKeys S tenantId) (\<lambda>keys. returnE (find (\<lambda>key. ek_status key = ACTIVE) keys))"

definition getArchivedKeys :: "'s SecurityService \<Rightarrow> string \<Rightarrow> (EncryptionKey list, 's world) io" where
  "getArchivedKeys S tenantId =
     bindE (getAllKeys S tenantId) (\<lambda>keys. returnE (filter (\<lambda>key. ek_status key = ARCHIVED) keys))"

definition createEncryptionKey :: "'s SecurityService \<Rightarrow> int \<Rightarrow> string \<Rightarrow> (EncryptionKey, 's world) io" where
  "createEncryptionKey S now tenantId =
     bindE (uuid_generateV7 S) (\<lambda>keyId.
       let key = \<lparr> ek_id = keyId, ek_tenantId = tenantId, ek_keyId = keyId,
                   ek_status = ACTIVE, ek_algorithm = DEFAULT_ALGORITHM,
                   ek_keySize = DEFAULT_KEY_SIZE, ek_createdAt = now,
                   ek_expiresAt = None, ek_rotationDate = None, ek_archivedAt = None \<rparr>
       in bindE (liftP (createKey_p (secretsProvider S) keyId None None)) (\<lambda>_. returnE key))"

definition ensureActiveKey :: "'s SecurityService \<Rightarrow> int \<Rightarrow> string \<Rightarrow> (EncryptionKey, 's world) io" where
  "ensureActiveKey S now tenantId =
     bindE (getActiveKey S tenantId) (\<lambda>activeKey.
       case activeKey of Some key \<Rightarrow> returnE key
       | None \<Rightarrow> createEncryptionKey S now tenantId)"

text \<open>
  The comparator of \<open>cleanupArchivedKeys\<close> subtracts the \<open>archivedAt\<close> times
  (\<open>new Date(a.archivedAt!).getTime() - new Date(b.archivedAt!).getTime()\<close>); it yields
  \<open>NaN\<close> when one of them is missing. \<open>keysToRemove\<close> is the slice
  \<open>sortedKeys.slice(0, archivedKeys.length - MAX_ARCHIVED_KEYS)\<close> of the array sorted by
  the runtime.
\<close>

definition archivedAt_compare :: "EncryptionKey \<Rightarrow> EncryptionKey \<Rightarrow> int option" where
  "archivedAt_compare a b =
     (case (ek_archivedAt a, ek_archivedAt b) of
        (Some x, Some y) \<Rightarrow> Some (x - y)
      | _ \<Rightarrow> None)"

definition keysToRemove :: "'s SecurityService \<Rightarrow> EncryptionKey list \<Rightarrow> EncryptionKey list" where
  "keysToRemove S archivedKeys =
     take (length archivedKeys - MAX_ARCHIVED_KEYS) (arraySort S archivedAt_compare archivedKeys)"

fun deleteKeys :: "'s SecurityService \<Rightarrow> EncryptionKey list \<Rightarrow> (unit, 's world) io" where
  "deleteKeys S [] = returnE ()"
| "deleteKeys S (key # keys) =
     bindE (liftP (deleteKey_p (secretsProvider S) (ek_keyId key))) (\<lambda>_. deleteKeys S keys)"

definition cleanupArchivedKeys :: "'s SecurityService \<Rightarrow> string \<Rightarrow> (unit, 's world) io" where
  "cleanupArchivedKeys S tenantId =
     bindE (getArchivedKeys S tenantId) (\<lambda>archivedKeys.
       if length archivedKeys > MAX_ARCHIVED_KEYS
       then deleteKeys S (keysToRemove S archivedKeys)
       else returnE ())"

text \<open>
  \<open>archiveKey\<close>: the archiving itself is a TODO in the source (the key's status is not
  touched and no provider method is called for it); only the cleanup runs.
\<close>

definition archiveKey :: "'s SecurityService \<Rightarrow> string \<Rightarrow> string \<Rightarrow> (unit, 's world) io" where
  "archiveKey S tenantId keyId = cleanupArchivedKeys S tenantId"

definition rotateKeys ::
  "'s SecurityService \<Rightarrow> int \<Rightarrow> RotateKeyRequest \<Rightarrow> (KeyRotationResponse, 's world) io" where
  "rotateKeys S now request =
     catchE
       (bindE (getActiveKey S (rq_tenantId request)) (\<lambda>activeKey.
          if activeKey = None \<and> rq_force request \<noteq> Some True
          then throwE ''No active key found for rotation''
          else
            bindE (createEncryptionKey S now (rq_tenantId request)) (\<lambda>newKey.
            bindE (case activeKey of
                     Some key \<Rightarrow>
                       bindE (archiveKey S (rq_tenantId request) (ek_keyId key)) (\<lambda>_.
                         getArchivedKeys S (rq_tenantId request))
                   | None \<Rightarrow> returnE []) (\<lambda>archivedKeys.
            returnE \<lparr> kr_oldKeyId = (case activeKey of Some key \<Rightarrow> ek_keyId key | None \<Rightarrow> []),
                      kr_newKeyId = ek_keyId newKey,
                      kr_rotationDate = now,
                      kr_archivedKeys = archivedKeys \<rparr>))))
       (\<lambda>e. throwE (''Key rotation failed: '' @ message e))"

definition listKeys :: "'s SecurityService \<Rightarrow> string \<Rightarrow> (KeyListResponse, 's world) io" where
  "listKeys S tenantId =
     catchE
       (bindE (validateUUID7 tenantId) (\<lambda>_.
        bindE (getAllKeys S tenantId) (\<lambda>keys.
          let activeKey = find (\<lambda>key. ek_status key = ACTIVE) keys
          in returnE \<lparr> kl_tenantId = tenantId,
                       kl_keys = keys,
                       kl_activeKeyId = (case activeKey of Some key \<Rightarrow> ek_keyId key | None \<Rightarrow> []),
                       kl_totalCount = int (length keys) \<rparr>)))
       (\<lambda>e. throwE (''Key listing failed: '' @ message e))"

text \<open>
  Reading a property of a missing \<open>metadata\<close> raises a \<open>TypeError\<close>, which the
  surrounding \<open>try\<close> catches like any other error.
\<close>

definition metadataOf :: "SecretData \<Rightarrow> (SecretMetadata, 'w) io" where
  "metadataOf secret =
     (case sd_metadata secret of
        Some metadata \<Rightarrow> returnE metadata
      | None \<Rightarrow> throwE (''Cannot read properties of undefined (reading '' @ [CHR 0x27]
                         @ ''name'' @ [CHR 0x27] @ '')''))"

definition storeSecret ::
  "'s SecurityService \<Rightarrow> int \<Rightarrow> string \<Rightarrow> string \<Rightarrow> string \<Rightarrow> int option
    \<Rightarrow> (string \<times> string) list option \<Rightarrow> (SecretResponse, 's world) io" where
  "storeSecret S now tenantId name val expiresAt tags =
     bindE (validateUUID7 tenantId) (\<lambda>_.
     bindE (uuid_generateV7 S) (\<lambda>secretId.
       let paths = getTenantPaths_p (secretsProvider S) tenantId;
           path = tp_secrets paths @ ''/'' @ secretId;
           metadata = \<lparr> sm_id = secretId, sm_name = name, sm_path = path,
                        sm_size = int (length val), sm_createdAt = now, sm_updatedAt = now,
                        sm_expiresAt = expiresAt, sm_tags = tags \<rparr>;
           secretData = \<lparr> sd_value = Some val, sd_encryptedData = None,
                          sd_metadata = Some metadata \<rparr>
       in bindE (liftP (setSecret_p (secretsProvider S) path secretData)) (\<lambda>_.
          returnE \<lparr> sr_id = secretId, sr_tenantId = tenantId, sr_name = name,
                    sr_value = Some val, sr_encryptedData = None, sr_keyId = None,
                    sr_algorithm = None, sr_iv = None,
                    sr_metadata = convertToVaultMetadata metadata \<rparr>)))"

definition encryptAndStoreSecret ::
  "'s SecurityService \<Rightarrow> int \<Rightarrow> string \<Rightarrow> string \<Rightarrow> string \<Rightarrow> int option
    \<Rightarrow> (string \<times> string) list option \<Rightarrow> (SecretResponse, 's world) io" where
  "encryptAndStoreSecret S now tenantId name val expiresAt tags =
     bindE (validateUUID7 tenantId) (\<lambda>_.
     bindE (uuid_generateV7 S) (\<lambda>secretId.
     bindE (ensureActiveKey S now tenantId) (\<lambda>activeKey.
     bindE (liftP (encrypt_p (secretsProvider S) val (ek_keyId activeKey) None)) (\<lambda>encryptedData.
       let paths = getTenantPaths_p (secretsProvider S) tenantId;
           path = tp_secrets paths @ ''/'' @ secretId;
           metadata = \<lparr> sm_id = secretId, sm_name = name, sm_path = path,
                        sm_size = int (length val), sm_createdAt = now, sm_updatedAt = now,
                        sm_expiresAt = expiresAt, sm_tags = tags \<rparr>;
           secretData = \<lparr> sd_value = None, sd_encryptedData = Some encryptedData,
                          sd_metadata = Some metadata \<rparr>
       in bindE (liftP (setSecret_p (secretsProvider S) path secretData)) (\<lambda>_.
          returnE \<lparr> sr_id = secretId, sr_tenantId = tenantId, sr_name = name,
                    sr_value = None,
                    sr_encryptedData = Some (ed_ciphertext encryptedData),
                    sr_keyId = Some (ek_keyId activeKey),
                    sr_algorithm = ed_algorithm encryptedData,
                    sr_iv = Some (case ed_iv encryptedData of Some iv \<Rightarrow> iv | None \<Rightarrow> []),
                    sr_metadata = convertToVaultMetadata metadata \<rparr>)))))"

definition getSecret :: "'s SecurityService \<Rightarrow> string \<Rightarrow> string \<Rightarrow> (SecretResponse, 's world) io" where
  "getSecret S tenantId secretId =
     catchE
       (bindE (validateUUID7 tenantId) (\<lambda>_.
          let paths = getTenantPaths_p (secretsProvider S) tenantId;
              secretPath = tp_secrets paths @ ''/'' @ secretId
          in bindE (liftP (getSecret_p (secretsProvider S) secretPath)) (\<lambda>secret.
               if truthy (sd_value secret) then
                 bindE (metadataOf secret) (\<lambda>metadata.
                   returnE \<lparr> sr_id = secretId, sr_tenantId = tenantId,
                             sr_name = sm_name metadata,
                             sr_value = sd_value secret, sr_encryptedData = None,
                             sr_keyId = None, sr_algorithm = None, sr_iv = None,
                             sr_metadata = convertToVaultMetadata metadata \<rparr>)
               else case sd_encryptedData secret of
                 Some encryptedData \<Rightarrow>
                   bindE (metadataOf secret) (\<lambda>metadata.
                     returnE \<lparr> sr_id = secretId, sr_tenantId = tenantId,
                               sr_name = sm_name metadata,
                               sr_value = None,
                               sr_encryptedData = Some (ed_ciphertext encryptedData),
                               sr_keyId = Some (ed_keyId encryptedData),
                               sr_algorithm = ed_algorithm encryptedData,
                               sr_iv = Some (case ed_iv encryptedData of Some iv \<Rightarrow> iv | None \<Rightarrow> []),
                               sr_metadata = convertToVaultMetadata metadata \<rparr>)
               | None \<Rightarrow> throwE (''Secret not found: '' @ secretId))))
       (\<lambda>e. throwE (''Secret retrieval failed: '' @ message e))"

definition decryptSecret :: "'s SecurityService \<Rightarrow> string \<Rightarrow> string \<Rightarrow> (string, 's world) io" where
  "decryptSecret S tenantId secretId =
     catchE
       (bindE (validateUUID7 tenantId) (\<lambda>_.
        bindE (getSecret S tenantId secretId) (\<lambda>secret.
          case (if truthy (sr_value secret) then sr_value secret else None) of
            Some v \<Rightarrow> returnE v
          | None \<Rightarrow>
             (case (if truthy (sr_encryptedData secret) then sr_encryptedData secret else None,
                    if truthy (sr_keyId secret) then sr_keyId secret else None) of
                (Some ciphertext, Some keyId) \<Rightarrow>
                  liftP (decrypt_p (secretsProvider S)
                           \<lparr> ed_ciphertext = ciphertext, ed_iv = sr_iv secret,
                             ed_algorithm = sr_algorithm secret, ed_keyId = keyId \<rparr>)
              | _ \<Rightarrow> throwE ''Invalid encrypted secret data''))))
       (\<lambda>e. throwE (''Secret decryption failed: '' @ message e))"

definition deleteSecret :: "'s SecurityService \<Rightarrow> string \<Rightarrow> string \<Rightarrow> (unit, 's world) io" where
  "deleteSecret S tenantId secretId =
     catchE
       (bindE (validateUUID7 tenantId) (\<lambda>_.
          let paths = getTenantPaths_p (secretsProvider S) tenantId
          in liftP (deleteSecret_p (secretsProvider S) (tp_secrets paths @ ''/'' @ secretId))))
       (\<lambda>e. throwE (''Secret deletion failed: '' @ message e))"

definition listSecrets :: "'s SecurityService \<Rightarrow> string \<Rightarrow> (SecretListResponse, 's world) io" where
  "listSecrets S tenantId =
     catchE
       (bindE (validateUUID7 tenantId) (\<lambda>_.
          let paths = getTenantPaths_p (secretsProvider S) tenantId
          in bindE (catchE (bindE (liftP (listSecrets_p (secretsProvider S) (tp_secrets paths)))
                              (\<lambda>secretsList. returnE (map convertToVaultMetadata secretsList)))
                           (\<lambda>e. returnE []))
               (\<lambda>secrets. returnE \<lparr> sl_tenantId = tenantId, sl_secrets = secrets,
                                     sl_totalCount = int (length secrets) \<rparr>)))
       (\<lambda>e. throwE (''Secret listing failed: '' @ message e))"

section \<open>The Vault provider (vault-secrets.provider.ts)\<close>

text \<open>
  The Vault client is an untyped object with \<open>read\<close>, \<open>write\<close>, \<open>delete\<close>, \<open>list\<close>
  and \<open>health\<close>; the provider is modelled over any such client, whose own state has
  type \<open>'b\<close>. \<open>read\<close> answers with the \<open>data\<close> of the response (\<open>None\<close> when it is
  missing), \<open>list\<close> with \<open>data.keys\<close>, \<open>health\<close> with the optional
  \<open>initialized\<close> and \<open>sealed\<close> flags of the response.
\<close>

record 'b VaultClient =
  vc_read :: "string \<Rightarrow> (SecretData option, 'b) io"
  vc_write :: "string \<Rightarrow> SecretData \<Rightarrow> (unit, 'b) io"
  vc_delete :: "string \<Rightarrow> (unit, 'b) io"
  vc_list :: "string \<Rightarrow> (string list option, 'b) io"
  vc_health :: "(bool option \<times> bool option, 'b) io"

text \<open>
  The provider's fields: the token of its configuration, \<open>isInitialized\<close>, \<open>status\<close>,
  the client's state, and the clock that \<open>new Date()\<close> reads.
\<close>

record 'b VaultSecretsProvider =
  v_token :: "string option"
  v_isInitialized :: bool
  v_status :: ProviderStatus
  v_client :: 'b
  v_clock :: int

definition liftC :: "('a, 'b) io \<Rightarrow> ('a, 'b VaultSecretsProvider) io" where
  "liftC m = (\<lambda>v. case m (v_client v) of (r, b') \<Rightarrow> (r, v\<lparr>v_client := b'\<rparr>))"

definition setStatus :: "ProviderStatus \<Rightarrow> (unit, 'b VaultSecretsProvider) io" where
  "setStatus st = (\<lambda>v. (Inr (), v\<lparr>v_status := st\<rparr>))"

definition isReady :: "'b VaultSecretsProvider \<Rightarrow> bool" where
  "isReady v = (v_isInitialized v \<and> v_status v = HEALTHY)"

definition requireReady :: "(unit, 'b VaultSecretsProvider) io" where
  "requireReady = (\<lambda>v. if \<not> isReady v then throwE ''Vault provider not ready'' v
                        else returnE () v)"

definition authenticateWithToken :: "(bool, 'b VaultSecretsProvider) io" where
  "authenticateWithToken =
     (\<lambda>v. if \<not> truthy (v_token v) then throwE ''Vault token not provided'' v
           else returnE True v)"

definition authenticate :: "(bool, 'b VaultSecretsProvider) io" where
  "authenticate =
     catchE authenticateWithToken
       (\<lambda>e. throwE (''Vault authentication failed: '' @ message e))"

text \<open>
  \<open>healthCheck\<close> never throws: it sets \<open>status\<close> from the response and reports
  \<open>healthy\<close>. \<open>response.initialized && !response.sealed\<close> is truthy exactly when
  \<open>initialized\<close> is \<open>true\<close> and \<open>sealed\<close> is absent or \<open>false\<close>.
\<close>

definition healthCheck :: "'b VaultClient \<Rightarrow> (bool, 'b VaultSecretsProvider) io" where
  "healthCheck C =
     catchE
       (bindE (liftC (vc_health C)) (\<lambda>(initialized, sealed).
          let healthy = (initialized = Some True \<and> sealed \<noteq> Some True)
          in bindE (setStatus (if healthy then HEALTHY else UNHEALTHY)) (\<lambda>_. returnE healthy)))
       (\<lambda>e. bindE (setStatus UNHEALTHY) (\<lambda>_. returnE False))"

definition initialize :: "'b VaultClient \<Rightarrow> (unit, 'b VaultSecretsProvider) io" where
  "initialize C =
     catchE
       (bindE (setStatus CONNECTING) (\<lambda>_.
        bindE authenticate (\<lambda>_.
        bindE (healthCheck C) (\<lambda>_.
          (\<lambda>v. (Inr (), v\<lparr>v_isInitialized := True, v_status := HEALTHY\<rparr>))))))
       (\<lambda>e. bindE (setStatus UNHEALTHY) (\<lambda>_.
              throwE (''Vault initialization failed: '' @ message e)))"

definition vault_getSecret :: "'b VaultClient \<Rightarrow> string \<Rightarrow> (SecretData, 'b VaultSecretsProvider) io" where
  "vault_getSecret C path =
     catchE
       (bindE requireReady (\<lambda>_.
        bindE (liftC (vc_read C path)) (\<lambda>data.
          case data of
            None \<Rightarrow> throwE (''Secret not found: '' @ path)
          | Some secret \<Rightarrow> returnE secret)))
       (\<lambda>e. throwE (''Vault get secret failed: '' @ message e))"

definition vault_setSecret ::
  "'b VaultClient \<Rightarrow> string \<Rightarrow> SecretData \<Rightarrow> (unit, 'b VaultSecretsProvider) io" where
  "vault_setSecret C path secretData =
     catchE
       (bindE requireReady (\<lambda>_. liftC (vc_write C path secretData)))
       (\<lambda>e. throwE (''Vault set secret failed: '' @ message e))"

definition vault_deleteSecret :: "'b VaultClient \<Rightarrow> string \<Rightarrow> (unit, 'b VaultSecretsProvider) io" where
  "vault_deleteSecret C path =
     catchE
       (bindE requireReady (\<lambda>_. liftC (vc_delete C path)))
       (\<lambda>e. throwE (''Vault delete secret failed: '' @ message e))"

text \<open>The loop of \<open>listSecrets\<close>: a secret that cannot be read is skipped.\<close>

fun readMetadata ::
  "'b VaultClient \<Rightarrow> string \<Rightarrow> string list \<Rightarrow> (SecretMetadata list, 'b VaultSecretsProvider) io" where
  "readMetadata C path [] = returnE []"
| "readMetadata C path (key # keys) =
     bindE (catchE (bindE (vault_getSecret C (path @ ''/'' @ key))
                      (\<lambda>secret. returnE (sd_metadata secret)))
                   (\<lambda>e. returnE None)) (\<lambda>metadata.
     bindE (readMetadata C path keys) (\<lambda>rest.
       returnE (case metadata of Some m \<Rightarrow> m # rest | None \<Rightarrow> rest)))"

definition vault_listSecrets ::
  "'b VaultClient \<Rightarrow> string \<Rightarrow> (SecretMetadata list, 'b VaultSecretsProvider) io" where
  "vault_listSecrets C path =
     catchE
       (bindE requireReady (\<lambda>_.
        bindE (liftC (vc_list C path)) (\<lambda>keys.
          readMetadata C path (case keys of Some ks \<Rightarrow> ks | None \<Rightarrow> []))))
       (\<lambda>e. throwE (''Vault list secrets failed: '' @ message e))"

definition AES256_GCM :: string where "AES256_GCM = ''aes256-gcm96''"

text \<open>
  \<open>encrypt\<close> and \<open>decrypt\<close> are placeholders in the source: the ciphertext is the
  plaintext behind the prefix \<open>encrypted_\<close>, and decryption removes the first
  occurrence of that prefix (\<open>String.prototype.replace\<close> with a string pattern).
\<close>

definition vault_encrypt ::
  "string \<Rightarrow> string \<Rightarrow> string option \<Rightarrow> (EncryptedData, 'b VaultSecretsProvider) io" where
  "vault_encrypt data keyId algorithm =
     catchE
       (bindE requireReady (\<lambda>_.
          returnE \<lparr> ed_ciphertext = ''encrypted_'' @ data,
                    ed_iv = Some ''placeholder_iv'',
                    ed_algorithm = (if truthy algorithm then algorithm else Some AES256_GCM),
                    ed_keyId = keyId \<rparr>))
       (\<lambda>e. throwE (''Vault encryption failed: '' @ message e))"

fun replaceFirst :: "string \<Rightarrow> string \<Rightarrow> string \<Rightarrow> string" where
  "replaceFirst pat rep [] = (if pat = [] then rep else [])"
| "replaceFirst pat rep (c # cs) =
     (if take (length pat) (c # cs) = pat then rep @ drop (length pat) (c # cs)
      else c # replaceFirst pat rep cs)"

definition vault_decrypt :: "EncryptedData \<Rightarrow> (string, 'b VaultSecretsProvider) io" where
  "vault_decrypt encryptedData =
     catchE
       (bindE requireReady (\<lambda>_.
          returnE (replaceFirst ''encrypted_'' [] (ed_ciphertext encryptedData))))
       (\<lambda>e. throwE (''Vault decryption failed: '' @ message e))"

text \<open>
  \<open>createKey\<close>, \<open>listKeys\<close> and \<open>deleteKey\<close> are placeholders too: the key is built
  and returned but stored nowhere, the listing is always empty, deletion only logs.
\<close>

definition vault_createKey ::
  "string \<Rightarrow> string option \<Rightarrow> int option \<Rightarrow> (KeyInfo, 'b VaultSecretsProvider) io" where
  "vault_createKey keyId algorithm keySize =
     catchE
       (bindE requireReady (\<lambda>_. (\<lambda>v.
          returnE \<lparr> ki_id = keyId,
                    ki_algorithm = (case algorithm of Some a \<Rightarrow> if a \<noteq> [] then a else AES256_GCM
                                    | None \<Rightarrow> AES256_GCM),
                    ki_keySize = (case keySize of Some n \<Rightarrow> if n \<noteq> 0 then n else 256
                                  | None \<Rightarrow> 256),
                    ki_status = ACTIVE,
                    ki_createdAt = v_clock v,
                    ki_expiresAt = None, ki_rotationDate = None, ki_archivedAt = None \<rparr> v)))
       (\<lambda>e. throwE (''Vault key creation failed: '' @ message e))"

definition vault_listKeys :: "(KeyInfo list, 'b VaultSecretsProvider) io" where
  "vault_listKeys =
     catchE (bindE requireReady (\<lambda>_. returnE []))
       (\<lambda>e. throwE (''Vault list keys failed: '' @ message e))"

definition vault_deleteKey :: "string \<Rightarrow> (unit, 'b VaultSecretsProvider) io" where
  "vault_deleteKey keyId =
     catchE (bindE requireReady (\<lambda>_. returnE ()))
       (\<lambda>e. throwE (''Vault key deletion failed: '' @ message e))"

definition vault_getTenantPaths :: "string \<Rightarrow> TenantPaths" where
  "vault_getTenantPaths tenantId =
     \<lparr> tp_secrets = ''secret/data/tenants/'' @ tenantId @ ''/secrets'',
       tp_encryptionKeys = ''transit/keys/tenants/'' @ tenantId,
       tp_keyRotation = ''transit/keys/tenants/'' @ tenantId @ ''/rotation'' \<rparr>"

definition VaultProvider :: "'b VaultClient \<Rightarrow> 'b VaultSecretsProvider ISecretsProvider" where
  "VaultProvider C =
     \<lparr> getSecret_p = vault_getSecret C,
       setSecret_p = vault_setSecret C,
       deleteSecret_p = vault_deleteSecret C,
       listSecrets_p = vault_listSecrets C,
       encrypt_p = vault_encrypt,
       decrypt_p = vault_decrypt,
       createKey_p = vault_createKey,
       listKeys_p = vault_listKeys,
       deleteKey_p = vault_deleteKey,
       getTenantPaths_p = vault_getTenantPaths \<rparr>"

text \<open>
  The client that \<open>initialize\<close> installs in the source is a placeholder: every call
  answers \<open>{ data: {} }\<close> (\<open>{ data: { keys: [] } }\<close> for \<open>list\<close>) and nothing is stored.
\<close>

definition placeholderClient :: "unit VaultClient" where
  "placeholderClient =
     \<lparr> vc_read = (\<lambda>path. returnE (Some \<lparr> sd_value = None, sd_encryptedData = None,
                                           sd_metadata = None \<rparr>)),
       vc_write = (\<lambda>path secretData. returnE ()),
       vc_delete = (\<lambda>path. returnE ()),
       vc_list = (\<lambda>path. returnE (Some [])),
       vc_health = returnE (None, None) \<rparr>"

section \<open>The provider factory (secrets.service.factory.ts)\<close>

definition providerTypeValues :: "(string \<times> SecretsProviderType) list" where
  "providerTypeValues =
     [(''vault'', VAULT), (''aws'', AWS_SECRETS_MANAGER), (''azure'', AZURE_KEY_VAULT),
      (''gcp'', GCP_SECRET_MANAGER), (''local'', LOCAL)]"

text \<open>
  \<open>getProviderTypeFromConfig\<close> reads the environment variable \<open>SECRETS_PROVIDER\<close>
  (\<open>None\<close> when unset): a value of the enum is taken, anything else defaults to Vault.
\<close>

definition getProviderTypeFromConfig :: "string option \<Rightarrow> SecretsProviderType" where
  "getProviderTypeFromConfig env =
     (case env of
        Some providerType \<Rightarrow>
          (case map_of providerTypeValues providerType of Some t \<Rightarrow> t | None \<Rightarrow> VAULT)
      | None \<Rightarrow> VAULT)"

definition newVaultSecretsProvider :: "string option \<Rightarrow> 'b \<Rightarrow> int \<Rightarrow> 'b VaultSecretsProvider" where
  "newVaultSecretsProvider token b clock =
     \<lparr> v_token = token, v_isInitialized = False, v_status = DISCONNECTED,
       v_client = b, v_clock = clock \<rparr>"

definition createVaultProvider ::
  "'b VaultClient \<Rightarrow> string option \<Rightarrow> 'b \<Rightarrow> int \<Rightarrow> error + 'b VaultSecretsProvider" where
  "createVaultProvider C token b clock =
     (case initialize C (newVaultSecretsProvider token b clock) of
        (Inl e, _) \<Rightarrow> Inl e
      | (Inr _, provider) \<Rightarrow> Inr provider)"

text \<open>
  \<open>createProvider\<close>: the selector \<open>env\<close>, the Vault token of the configuration, the
  Vault client with its initial state, and the clock. The \<open>default\<close> branch of the
  source's \<open>switch\<close> cannot be reached, since \<open>getProviderTypeFromConfig\<close> only returns
  values of the enum.
\<close>

definition createProvider ::
  "'b VaultClient \<Rightarrow> string option \<Rightarrow> string option \<Rightarrow> 'b \<Rightarrow> int
    \<Rightarrow> error + 'b VaultSecretsProvider" where
  "createProvider C env token b clock =
     (case getProviderTypeFromConfig env of
        VAULT \<Rightarrow> createVaultProvider C token b clock
      | AWS_SECRETS_MANAGER \<Rightarrow> Inl (Error ''AWS Secrets Manager provider not implemented yet'')
      | AZURE_KEY_VAULT \<Rightarrow> Inl (Error ''Azure Key Vault provider not implemented yet'')
      | GCP_SECRET_MANAGER \<Rightarrow> Inl (Error ''GCP Secret Manager provider not implemented yet'')
      | LOCAL \<Rightarrow> Inl (Error ''Local secrets provider not implemented yet''))"

section \<open>JavaScript numbers and strings used by the cache and the abuse guard\<close>

text \<open>
  Numbers are integers, with \<open>None\<close> for \<open>NaN\<close>. This is exact while the magnitudes stay
  below \<open>2 ^ 53\<close>, which covers every time value of a \<open>Date\<close> (at most \<open>8.64e15\<close>) and
  every counter a cache holds in the statements below; beyond it JavaScript rounds to
  doubles (and prints in exponent form from \<open>1e21\<close>), which is not modelled.

  A character of a string is a UTF-16 code unit below 256. \<open>parseInt\<close> skips leading white
  space (the code units of \<open>StrWhiteSpaceChar\<close> in that range: TAB, LF, VT, FF, CR, SPACE
  and NBSP) and a sign, reads the longest run of digits of the radix, and yields \<open>NaN\<close>
  when there is none; without a radix a prefix \<open>0x\<close> selects radix 16.
\<close>

definition isWhiteSpace :: "char \<Rightarrow> bool" where
  "isWhiteSpace c =
     (c \<in> set [CHR 0x09, CHR 0x0A, CHR 0x0B, CHR 0x0C, CHR 0x0D, CHR '' '', CHR 0xA0])"

definition digitVal :: "char \<Rightarrow> nat option" where
  "digitVal c =
     (case map_of (zip ''0123456789abcdefghijklmnopqrstuvwxyz'' [0..<36]) c of
        Some n \<Rightarrow> Some n
      | None \<Rightarrow> map_of (zip ''ABCDEFGHIJKLMNOPQRSTUVWXYZ'' [10..<36]) c)"

fun parseDigits :: "nat \<Rightarrow> string \<Rightarrow> nat option \<Rightarrow> nat option" where
  "parseDigits r [] acc = acc"
| "parseDigits r (c # cs) acc =
     (case digitVal c of
        Some d \<Rightarrow> if d < r then parseDigits r cs (Some (case acc of None \<Rightarrow> d | Some a \<Rightarrow> a * r + d))
                  else acc
      | None \<Rightarrow> acc)"

definition parseSigned :: "nat option \<Rightarrow> string \<Rightarrow> int option" where
  "parseSigned radix s =
     (let s1 = dropWhile isWhiteSpace s;
          neg = (take 1 s1 = ''-'');
          s2 = (if take 1 s1 = ''-'' \<or> take 1 s1 = ''+'' then drop 1 s1 else s1);
          hex = (radix = None \<and> (take 2 s2 = ''0x'' \<or> take 2 s2 = ''0X''));
          r = (if hex then 16 else case radix of Some r \<Rightarrow> r | None \<Rightarrow> 10);
          s3 = (if hex then drop 2 s2 else s2)
      in map_option (\<lambda>n. if neg then - int n else int n) (parseDigits r s3 None))"


definition parseInt10 :: "string \<Rightarrow> int option" where
  "parseInt10 s = parseSigned (Some 10) s"

fun digitsOf :: "nat \<Rightarrow> string" where
  "digitsOf n = (if n < 10 then [''0123456789'' ! n]
                 else digitsOf (n div 10) @ [''0123456789'' ! (n mod 10)])"

definition toString :: "int option \<Rightarrow> string" where
  "toString x =
     (case x of None \<Rightarrow> ''NaN''
      | Some i \<Rightarrow> if i < 0 then ''-'' @ digitsOf (nat (- i)) else digitsOf (nat i))"



section \<open>The cache abstraction (cache.service.ts and its backends)\<close>

text \<open>
  \<open>CacheService\<close> forwards every call to the backend selected at start-up. The
  methods the abuse guard uses, over a backend with state \<open>'c\<close>; the first argument is
  the current time (\<open>Date.now()\<close>).
\<close>

record 'c CacheService =
  cache_get :: "int \<Rightarrow> string \<Rightarrow> (string option, 'c) io"
  cache_setex :: "int \<Rightarrow> string \<Rightarrow> int \<Rightarrow> string \<Rightarrow> (unit, 'c) io"
  cache_del :: "int \<Rightarrow> string \<Rightarrow> (unit, 'c) io"
  cache_incr :: "int \<Rightarrow> string \<Rightarrow> (int option, 'c) io"
  cache_expire :: "int \<Rightarrow> string \<Rightarrow> int \<Rightarrow> (unit, 'c) io"
  cache_ttl :: "int \<Rightarrow> string \<Rightarrow> (int, 'c) io"

definition getFullKey :: "string option \<Rightarrow> string \<Rightarrow> string" where
  "getFullKey keyPrefix key =
     (case keyPrefix of
        Some p \<Rightarrow> if p \<noteq> [] then p @ '':'' @ key else key
      | None \<Rightarrow> key)"

subsection \<open>MemoryCacheService\<close>

record MemItem =
  mi_value :: string
  mi_expiry :: "int option"

type_synonym MemCache = "string \<Rightarrow> MemItem option"

text \<open>\<open>item.expiry && Date.now() > item.expiry\<close>: an expiry of \<open>0\<close> is falsy.\<close>

definition expired :: "int \<Rightarrow> MemItem \<Rightarrow> bool" where
  "expired now item =
     (case mi_expiry item of Some e \<Rightarrow> e \<noteq> 0 \<and> now > e | None \<Rightarrow> False)"

definition mem_get :: "string option \<Rightarrow> int \<Rightarrow> string \<Rightarrow> (string option, MemCache) io" where
  "mem_get keyPrefix now key =
     (\<lambda>cache. let fullKey = getFullKey keyPrefix key in
        case cache fullKey of
          None \<Rightarrow> (Inr None, cache)
        | Some item \<Rightarrow>
            if expired now item then (Inr None, cache(fullKey := None))
            else (Inr (Some (mi_value item)), cache))"

definition mem_set ::
  "string option \<Rightarrow> int \<Rightarrow> string \<Rightarrow> string \<Rightarrow> int option \<Rightarrow> (unit, MemCache) io" where
  "mem_set keyPrefix now key val ttlSeconds =
     (\<lambda>cache. let fullKey = getFullKey keyPrefix key;
                   expiry = (case ttlSeconds of
                               Some t \<Rightarrow> if t \<noteq> 0 then Some (now + t * 1000) else None
                             | None \<Rightarrow> None)
        in (Inr (), cache(fullKey \<mapsto> \<lparr> mi_value = val, mi_expiry = expiry \<rparr>)))"

definition mem_setex :: "string option \<Rightarrow> int \<Rightarrow> string \<Rightarrow> int \<Rightarrow> string \<Rightarrow> (unit, MemCache) io" where
  "mem_setex keyPrefix now key ttlSeconds val = mem_set keyPrefix now key val (Some ttlSeconds)"

definition mem_del :: "string option \<Rightarrow> int \<Rightarrow> string \<Rightarrow> (unit, MemCache) io" where
  "mem_del keyPrefix now key =
     (\<lambda>cache. (Inr (), cache(getFullKey keyPrefix key := None)))"

text \<open>
  \<open>incr\<close> passes the already prefixed key to \<open>get\<close> and \<open>set\<close>, which prefix it
  again, and it writes the new value through \<open>set\<close> without a TTL.
\<close>

definition mem_incr :: "string option \<Rightarrow> int \<Rightarrow> string \<Rightarrow> (int option, MemCache) io" where
  "mem_incr keyPrefix now key =
     (let fullKey = getFullKey keyPrefix key in
      bindE (mem_get keyPrefix now fullKey) (\<lambda>current.
        let newValue = toString (map_option (\<lambda>n. n + 1)
                         (parseInt10 (case current of Some c \<Rightarrow> if c \<noteq> [] then c else ''0''
                                      | None \<Rightarrow> ''0'')))
        in bindE (mem_set keyPrefix now fullKey newValue None) (\<lambda>_.
             returnE (parseInt10 newValue))))"

definition mem_expire :: "string option \<Rightarrow> int \<Rightarrow> string \<Rightarrow> int \<Rightarrow> (unit, MemCache) io" where
  "mem_expire keyPrefix now key ttlSeconds =
     (\<lambda>cache. let fullKey = getFullKey keyPrefix key in
        case cache fullKey of
          Some item \<Rightarrow> (Inr (), cache(fullKey \<mapsto> item\<lparr>mi_expiry := Some (now + ttlSeconds * 1000)\<rparr>))
        | None \<Rightarrow> (Inr (), cache))"

definition mem_ttl :: "string option \<Rightarrow> int \<Rightarrow> string \<Rightarrow> (int, MemCache) io" where
  "mem_ttl keyPrefix now key =
     (\<lambda>cache. let fullKey = getFullKey keyPrefix key in
        case cache fullKey of
          None \<Rightarrow> (Inr (- 1), cache)
        | Some item \<Rightarrow>
            (case mi_expiry item of
               None \<Rightarrow> (Inr (- 1), cache)
             | Some e \<Rightarrow>
                 if e = 0 then (Inr (- 1), cache)
                 else let remaining = (e - now) div 1000
                      in (Inr (if remaining > 0 then remaining else - 1), cache)))"

definition MemoryCache :: "string option \<Rightarrow> MemCache CacheService" where
  "MemoryCache keyPrefix =
     \<lparr> cache_get = mem_get keyPrefix,
       cache_setex = mem_setex keyPrefix,
       cache_del = mem_del keyPrefix,
       cache_incr = mem_incr keyPrefix,
       cache_expire = mem_expire keyPrefix,
       cache_ttl = mem_ttl keyPrefix \<rparr>"

subsection \<open>ValKeyCacheService\<close>




section \<open>The abuse guard (ip-blacklist.service.ts)\<close>

record BlacklistRow =
  ip_address :: string
  blocked_until :: "int option"
  reason :: "string option"
  blocked_by :: "string option"
  unblocked_at :: "int option"
  unblocked_by :: "string option"

text \<open>
  The durable store is reached through Prisma, which is outside the repository. The three
  queries the service issues, over a store with state \<open>'d\<close>:
  \<open>findFirst ip now\<close> is the query for a row of \<open>ip\<close> with \<open>blocked_until > now\<close> and
  \<open>unblocked_at\<close> null; \<open>create\<close> inserts a row; \<open>updateMany ip now by\<close> sets
  \<open>unblocked_at\<close> and \<open>unblocked_by\<close> on the rows of \<open>ip\<close> with \<open>unblocked_at\<close> null.
\<close>

record 'd IpBlacklistTable =
  db_findFirst :: "string \<Rightarrow> int \<Rightarrow> (BlacklistRow option, 'd) io"
  db_create :: "BlacklistRow \<Rightarrow> (unit, 'd) io"
  db_updateMany :: "string \<Rightarrow> int \<Rightarrow> string option \<Rightarrow> (unit, 'd) io"

record ('c, 'd) IpBlacklistService =
  cacheService :: "'c CacheService"
  ipBlacklist :: "'d IpBlacklistTable"

record ('c, 'd) guard =
  g_cache :: 'c
  g_db :: 'd

definition liftCache :: "('a, 'c) io \<Rightarrow> ('a, ('c, 'd) guard) io" where
  "liftCache m = (\<lambda>g. case m (g_cache g) of (r, c') \<Rightarrow> (r, g\<lparr>g_cache := c'\<rparr>))"


text \<open>
  \<open>expiryTime > new Date()\<close> compares time values; an invalid date compares false.
  The column \<open>blocked_until\<close> of a row is a \<open>Date\<close>. In \<open>blacklistIp\<close> the end of the block is
  \<open>new Date(Date.now() + durationMinutes * 60 * 1000)\<close>, an invalid date when the sum
  leaves the range of \<open>Date\<close>; its \<open>getTime().toString()\<close> is then \<open>NaN\<close>.
\<close>

definition dateAfter :: "int option \<Rightarrow> int \<Rightarrow> bool" where
  "dateAfter d now = (case d of Some t \<Rightarrow> t > now | None \<Rightarrow> False)"




record RateLimit =
  allowed :: bool
  remaining :: "int option"
  resetTime :: int

definition checkRateLimit ::
  "('c, 'd) IpBlacklistService \<Rightarrow> int \<Rightarrow> string \<Rightarrow> int \<Rightarrow> int \<Rightarrow> (RateLimit, ('c, 'd) guard) io" where
  "checkRateLimit B now ipAddress maxRequests windowSeconds =
     (let key = ''ratelimit:'' @ ipAddress
      in catchE
           (bindE (liftCache (cache_incr (cacheService B) now key)) (\<lambda>current.
            bindE (if current = Some 1
                   then liftCache (cache_expire (cacheService B) now key windowSeconds)
                   else returnE ()) (\<lambda>_.
            bindE (liftCache (cache_ttl (cacheService B) now key)) (\<lambda>ttl.
              returnE \<lparr> allowed = (case current of Some n \<Rightarrow> n \<le> maxRequests | None \<Rightarrow> False),
                        remaining = map_option (\<lambda>n. max 0 (maxRequests - n)) current,
                        resetTime = now + ttl * 1000 \<rparr>))))
           (\<lambda>e. returnE \<lparr> allowed = True, remaining = Some maxRequests, resetTime = now \<rparr>))"

section \<open>Concrete collaborators\<close>



fun insertSorted :: "('a \<Rightarrow> 'a \<Rightarrow> int option) \<Rightarrow> 'a \<Rightarrow> 'a list \<Rightarrow> 'a list" where
  "insertSorted cmp x [] = [x]"
| "insertSorted cmp x (y # ys) =
     (if (case cmp x y of Some d \<Rightarrow> 0 < d | None \<Rightarrow> False)
      then y # insertSorted cmp x ys else x # y # ys)"

definition stableSort :: "('a \<Rightarrow> 'a \<Rightarrow> int option) \<Rightarrow> 'a list \<Rightarrow> 'a list" where
  "stableSort cmp xs = foldr (insertSorted cmp) xs []"

fun hexDigits :: "nat \<Rightarrow> string" where
  "hexDigits n = (if n < 16 then [''0123456789abcdef'' ! n]
                  else hexDigits (n div 16) @ [''0123456789abcdef'' ! (n mod 16)])"

definition sampleUuid :: "nat \<Rightarrow> string" where
  "sampleUuid n =
     ''01890a5d-ac96-7000-8000-'' @ replicate (12 - length (hexDigits n)) (CHR ''0'')
       @ hexDigits n"

record MemProvider =
  mp_keys :: "KeyInfo list"
  mp_secrets :: "(string \<times> SecretData) list"
  mp_deleted :: "string list"
  mp_clock :: int

definition mp_hasKey :: "string \<Rightarrow> MemProvider \<Rightarrow> bool" where
  "mp_hasKey keyId s = (keyId \<in> set (map ki_id (mp_keys s)))"

definition InMemoryProvider :: "MemProvider ISecretsProvider" where
  "InMemoryProvider =
     \<lparr> getSecret_p = (\<lambda>path s.
         case map_of (mp_secrets s) path of
           Some secret \<Rightarrow> (Inr secret, s)
         | None \<Rightarrow> (Inl (Error (''Secret not found: '' @ path)), s)),
       setSecret_p = (\<lambda>path secret s.
         (Inr (), s\<lparr>mp_secrets := (path, secret) # filter (\<lambda>(p, _). p \<noteq> path) (mp_secrets s)\<rparr>)),
       deleteSecret_p = (\<lambda>path s.
         (Inr (), s\<lparr>mp_secrets := filter (\<lambda>(p, _). p \<noteq> path) (mp_secrets s)\<rparr>)),
       listSecrets_p = (\<lambda>path s.
         (Inr (concat (map (\<lambda>(p, secret).
                  if take (length path + 1) p = path @ ''/''
                  then (case sd_metadata secret of Some m \<Rightarrow> [m] | None \<Rightarrow> []) else [])
                (mp_secrets s))), s)),
       encrypt_p = (\<lambda>data keyId algorithm s.
         if mp_hasKey keyId s
         then (Inr \<lparr> ed_ciphertext = ''encrypted_'' @ data, ed_iv = Some ''placeholder_iv'',
                     ed_algorithm = Some AES256_GCM, ed_keyId = keyId \<rparr>, s)
         else (Inl (Error (''Key not found: '' @ keyId)), s)),
       decrypt_p = (\<lambda>encryptedData s.
         if mp_hasKey (ed_keyId encryptedData) s
         then (Inr (replaceFirst ''encrypted_'' [] (ed_ciphertext encryptedData)), s)
         else (Inl (Error (''Key not found: '' @ ed_keyId encryptedData)), s)),
       createKey_p = (\<lambda>keyId algorithm keySize s.
         let key = \<lparr> ki_id = keyId, ki_algorithm = AES256_GCM, ki_keySize = 256,
                     ki_status = ACTIVE, ki_createdAt = mp_clock s, ki_expiresAt = None,
                     ki_rotationDate = None, ki_archivedAt = None \<rparr>
         in (Inr key, s\<lparr>mp_keys := mp_keys s @ [key]\<rparr>)),
       listKeys_p = (\<lambda>s. (Inr (mp_keys s), s)),
       deleteKey_p = (\<lambda>keyId s.
         (Inr (), s\<lparr>mp_keys := filter (\<lambda>k. ki_id k \<noteq> keyId) (mp_keys s),
                     mp_deleted := mp_deleted s @ [keyId]\<rparr>)),
       getTenantPaths_p = vault_getTenantPaths \<rparr>"

definition MemEngine :: "MemProvider SecurityService" where
  "MemEngine =
     \<lparr> secretsProvider = InMemoryProvider, generateV7 = sampleUuid, arraySort = stableSort \<rparr>"

definition emptyMemWorld :: "MemProvider world" where
  "emptyMemWorld =
     \<lparr> w_provider = \<lparr> mp_keys = [], mp_secrets = [], mp_deleted = [], mp_clock = 0 \<rparr>,
       w_uuids = 0 \<rparr>"

definition VaultEngine :: "unit VaultSecretsProvider SecurityService" where
  "VaultEngine =
     \<lparr> secretsProvider = VaultProvider placeholderClient, generateV7 = sampleUuid,
       arraySort = stableSort \<rparr>"

definition readyVault :: "unit VaultSecretsProvider" where
  "readyVault =
     \<lparr> v_token = Some ''dev-token'', v_isInitialized = True, v_status = HEALTHY,
       v_client = (), v_clock = 0 \<rparr>"

definition readyVaultWorld :: "unit VaultSecretsProvider world" where
  "readyVaultWorld = \<lparr> w_provider = readyVault, w_uuids = 0 \<rparr>"

definition RowTable :: "BlacklistRow list IpBlacklistTable" where
  "RowTable =
     \<lparr> db_findFirst = (\<lambda>ip now rows.
         (Inr (find (\<lambda>r. ip_address r = ip \<and> dateAfter (blocked_until r) now
                            \<and> unblocked_at r = None) rows),
          rows)),
       db_create = (\<lambda>row rows. (Inr (), rows @ [row])),
       db_updateMany = (\<lambda>ip now by rows.
         (Inr (), map (\<lambda>r. if ip_address r = ip \<and> unblocked_at r = None
                           then r\<lparr>unblocked_at := Some now, unblocked_by := by\<rparr> else r) rows)) \<rparr>"

definition tenantA :: string where
  "tenantA = ''01890a5d-ac96-774b-bcce-b302099a8057''"

definition tenantB :: string where
  "tenantB = ''01890a5d-ac96-7c1e-9f3a-5d2e8b7a6c41''"






definition MemoryGuard :: "(MemCache, BlacklistRow list) IpBlacklistService" where
  "MemoryGuard = \<lparr> cacheService = MemoryCache None, ipBlacklist = RowTable \<rparr>"

definition emptyGuard :: "(MemCache, BlacklistRow list) guard" where
  "emptyGuard = \<lparr> g_cache = Map.empty, g_db = [] \<rparr>"

text \<open>The guard's state when the cache holds one rate-limit entry for \<open>10.0.0.1\<close>.\<close>

definition rateLimited :: "string \<Rightarrow> int option \<Rightarrow> (MemCache, BlacklistRow list) guard" where
  "rateLimited v e =
     \<lparr> g_cache = [''ratelimit:10.0.0.1'' \<mapsto> \<lparr> mi_value = v, mi_expiry = e \<rparr>], g_db = [] \<rparr>"










section \<open>Basic facts\<close>

lemmas io_defs = returnE_def throwE_def rethrowE_def bindE_def catchE_def

lemma getAllKeys_eq:
  "getAllKeys S t w =
     (case listKeys_p (secretsProvider S) (w_provider w) of
        (Inr ks, s') \<Rightarrow> (Inr (map convertToEncryptionKey ks), w\<lparr>w_provider := s'\<rparr>)
      | (Inl e, s') \<Rightarrow> (Inr [], w\<lparr>w_provider := s'\<rparr>))"
  by (simp add: getAllKeys_def liftP_def io_defs split: prod.splits sum.splits)

lemma getActiveKey_state:
  "snd (getActiveKey S t w) = w\<lparr>w_provider := snd (listKeys_p (secretsProvider S) (w_provider w))\<rparr>"
  by (simp add: getActiveKey_def getAllKeys_eq io_defs split: prod.splits sum.splits)










lemma liftP_fst: "fst (liftP m w) = fst (m (w_provider w))"
  by (simp add: liftP_def split: prod.splits)

lemma fst_bindE:
  "fst (bindE m f s) = (case fst (m s) of Inl e \<Rightarrow> Inl e | Inr x \<Rightarrow> fst (f x (snd (m s))))"
  by (cases "m s") (auto simp: io_defs split: sum.splits)

lemma fst_catchE_throwE:
  "fst (catchE m (\<lambda>e. throwE (p @ message e)) s)
     = (case fst (m s) of Inl e \<Rightarrow> Inl (Error (p @ message e)) | Inr x \<Rightarrow> Inr x)"
  by (cases "m s") (auto simp: io_defs split: sum.splits)

lemma find_map_option: "find P (map f xs) = map_option f (find (\<lambda>x. P (f x)) xs)"
  by (induction xs) simp_all

lemma replaceFirst_prefix: "pat \<noteq> [] \<Longrightarrow> replaceFirst pat rep (pat @ x) = rep @ x"
  by (cases pat) simp_all

section \<open>Vault round trip\<close>

text \<open>
  Claim C8. For every string \<open>x\<close> and every key produced by \<open>createKey\<close>, encrypting
  \<open>x\<close> under that key with the Vault provider succeeds, and decrypting the result
  returns \<open>x\<close> exactly. (\<open>createKey\<close> only returns a key when the provider is ready, and
  it leaves the provider unchanged.)
\<close>

theorem vault_round_trip:
  assumes "vault_createKey keyId algorithm keySize v = (Inr key, v')"
  shows "v' = v \<and> ki_id key = keyId \<and>
         (\<exists>e. vault_encrypt x (ki_id key) alg v' = (Inr e, v') \<and> ed_keyId e = ki_id key
              \<and> vault_decrypt e v' = (Inr x, v'))"
proof -
  from assms have r: "isReady v" and v: "v' = v" and k: "ki_id key = keyId"
    by (auto simp: vault_createKey_def requireReady_def io_defs split: if_splits)
  let ?e = "\<lparr> ed_ciphertext = ''encrypted_'' @ x, ed_iv = Some ''placeholder_iv'',
               ed_algorithm = (if truthy alg then alg else Some AES256_GCM),
               ed_keyId = keyId \<rparr>"
  have "vault_encrypt x keyId alg v = (Inr ?e, v)"
    using r by (simp add: vault_encrypt_def requireReady_def io_defs)
  moreover have "vault_decrypt ?e v = (Inr x, v)"
    using r replaceFirst_prefix[of "''encrypted_''" "[]" x]
    by (simp add: vault_decrypt_def requireReady_def io_defs)
  ultimately show ?thesis using v k by simp
qed

theorem vault_round_trip_witness:
  "vault_createKey ''k1'' None None readyVault
     = (Inr \<lparr> ki_id = ''k1'', ki_algorithm = ''aes256-gcm96'', ki_keySize = 256,
               ki_status = ACTIVE, ki_createdAt = 0, ki_expiresAt = None,
               ki_rotationDate = None, ki_archivedAt = None \<rparr>, readyVault)
   \<and> (\<exists>e. vault_encrypt ''encrypted_s3cr3t'' ''k1'' None readyVault = (Inr e, readyVault)
           \<and> vault_decrypt e readyVault = (Inr ''encrypted_s3cr3t'', readyVault))"
proof -
  have c: "vault_createKey ''k1'' None None readyVault
     = (Inr \<lparr> ki_id = ''k1'', ki_algorithm = ''aes256-gcm96'', ki_keySize = 256,
               ki_status = ACTIVE, ki_createdAt = 0, ki_expiresAt = None,
               ki_rotationDate = None, ki_archivedAt = None \<rparr>, readyVault)"
    by code_simp
  from vault_round_trip[OF c, of "''encrypted_s3cr3t''" None] c show ?thesis
    by auto
qed

section \<open>Tenant identifier validation\<close>

text \<open>
  Every operation except \<open>rotateKeys\<close> validates the tenant identifier first: with an
  invalid identifier it fails with the validation error (wrapped by the operation's own
  \<open>catch\<close> where it has one), draws no identifier and calls no provider method.
\<close>

lemma invalid_tenantId_rejected:
  assumes "\<not> UUID7_isValid t"
  shows "storeSecret S now t name val ex tags w = (Inl (Error (''Invalid UUID v7 format: '' @ t)), w)"
    and "encryptAndStoreSecret S now t name val ex tags w
           = (Inl (Error (''Invalid UUID v7 format: '' @ t)), w)"
    and "getSecret S t sid w
           = (Inl (Error (''Secret retrieval failed: Invalid UUID v7 format: '' @ t)), w)"
    and "decryptSecret S t sid w
           = (Inl (Error (''Secret decryption failed: Invalid UUID v7 format: '' @ t)), w)"
    and "deleteSecret S t sid w
           = (Inl (Error (''Secret deletion failed: Invalid UUID v7 format: '' @ t)), w)"
    and "listSecrets S t w
           = (Inl (Error (''Secret listing failed: Invalid UUID v7 format: '' @ t)), w)"
    and "listKeys S t w
           = (Inl (Error (''Key listing failed: Invalid UUID v7 format: '' @ t)), w)"
  using assms
  by (simp_all add: storeSecret_def encryptAndStoreSecret_def getSecret_def decryptSecret_def
        deleteSecret_def listSecrets_def listKeys_def validateUUID7_def io_defs)

text \<open>
  Claim C9 (fails on the code). \<open>rotateKeys\<close> never calls \<open>validateUUID7\<close>: with the
  tenant identifier \<open>not-a-uuid\<close>, which is not a UUID v7, a forced rotation on a ready
  Vault provider derives the tenant's paths, calls the provider and succeeds.
\<close>

theorem rotateKeys_accepts_invalid_tenantId:
  "\<not> UUID7_isValid ''not-a-uuid''
   \<and> rotateKeys VaultEngine 5 \<lparr> rq_tenantId = ''not-a-uuid'', rq_force = Some True \<rparr> readyVaultWorld
       = (Inr \<lparr> kr_oldKeyId = [], kr_newKeyId = ''01890a5d-ac96-7000-8000-000000000000'',
                 kr_rotationDate = 5, kr_archivedKeys = [] \<rparr>,
          \<lparr> w_provider = readyVault, w_uuids = 1 \<rparr>)"
  by code_simp

section \<open>The active-key invariant\<close>

text \<open>
  Claim C1 (fails on the code). \<open>archiveKey\<close> does not archive: with a provider that
  keeps the keys it creates, \<open>encryptAndStoreSecret\<close> creates the key \<open>...01\<close>, the
  rotation that follows creates \<open>...02\<close>, and \<open>listKeys\<close> then reports both with status
  ACTIVE; the previously active key is still ACTIVE. With the Vault provider of the
  source, whose key listing is always empty, two calls of \<open>ensureActiveKey\<close> for the same
  tenant hand out two different keys, each with status ACTIVE.
\<close>

theorem rotateKeys_leaves_two_active_keys:
  "fst (rotateKeys MemEngine 20 \<lparr> rq_tenantId = tenantA, rq_force = None \<rparr>
         (snd (encryptAndStoreSecret MemEngine 10 tenantA ''db-pass'' ''s3cr3t'' None None
                 emptyMemWorld)))
     = Inr \<lparr> kr_oldKeyId = ''01890a5d-ac96-7000-8000-000000000001'',
               kr_newKeyId = ''01890a5d-ac96-7000-8000-000000000002'',
               kr_rotationDate = 20, kr_archivedKeys = [] \<rparr>
   \<and> map_sum id (\<lambda>r. map (\<lambda>k. (ek_keyId k, ek_status k)) (kl_keys r))
       (fst (listKeys MemEngine tenantA
          (snd (rotateKeys MemEngine 20 \<lparr> rq_tenantId = tenantA, rq_force = None \<rparr>
             (snd (encryptAndStoreSecret MemEngine 10 tenantA ''db-pass'' ''s3cr3t'' None None
                     emptyMemWorld))))))
     = Inr [(''01890a5d-ac96-7000-8000-000000000001'', ACTIVE),
            (''01890a5d-ac96-7000-8000-000000000002'', ACTIVE)]
   \<and> fst (ensureActiveKey VaultEngine 10 tenantA readyVaultWorld)
     = Inr \<lparr> ek_id = ''01890a5d-ac96-7000-8000-000000000000'', ek_tenantId = tenantA,
               ek_keyId = ''01890a5d-ac96-7000-8000-000000000000'', ek_status = ACTIVE,
               ek_algorithm = ''aes256-gcm96'', ek_keySize = 256, ek_createdAt = 10,
               ek_expiresAt = None, ek_rotationDate = None, ek_archivedAt = None \<rparr>
   \<and> fst (ensureActiveKey VaultEngine 11 tenantA
            (snd (ensureActiveKey VaultEngine 10 tenantA readyVaultWorld)))
     = Inr \<lparr> ek_id = ''01890a5d-ac96-7000-8000-000000000001'', ek_tenantId = tenantA,
               ek_keyId = ''01890a5d-ac96-7000-8000-000000000001'', ek_status = ACTIVE,
               ek_algorithm = ''aes256-gcm96'', ek_keySize = 256, ek_createdAt = 11,
               ek_expiresAt = None, ek_rotationDate = None, ek_archivedAt = None \<rparr>"
  by code_simp

section \<open>The rate limiter on the in-memory cache\<close>

lemma parseInt10_digits:
  "parseInt10 ''0'' = Some 0" "parseInt10 ''1'' = Some 1" "parseInt10 ''2'' = Some 2"
  "parseInt10 ''3'' = Some 3" "parseInt10 ''4'' = Some 4" "parseInt10 ''5'' = Some 5"
  "parseInt10 ''6'' = Some 6" "parseInt10 ''7'' = Some 7"
  by code_simp+

lemma toString_digits:
  "toString (Some 1) = ''1''" "toString (Some 2) = ''2''" "toString (Some 3) = ''3''"
  "toString (Some 4) = ''4''" "toString (Some 5) = ''5''" "toString (Some 6) = ''6''"
  "toString (Some 7) = ''7''"
  by code_simp+

lemmas memory_guard_defs =
  checkRateLimit_def MemoryGuard_def MemoryCache_def mem_incr_def mem_get_def mem_set_def
  mem_expire_def mem_ttl_def getFullKey_def expired_def liftCache_def io_defs
  emptyGuard_def rateLimited_def parseInt10_digits toString_digits Let_def

text \<open>The root of the defect: whatever was stored, \<open>incr\<close> leaves the counter without expiry.\<close>

lemma mem_incr_drops_expiry:
  "\<exists>v. snd (mem_incr keyPrefix now key cache) (getFullKey keyPrefix (getFullKey keyPrefix key))
         = Some \<lparr> mi_value = v, mi_expiry = None \<rparr>"
  by (simp add: mem_incr_def mem_get_def mem_set_def io_defs Let_def split: option.splits)

text \<open>
  Claim C6 (fails on the code). With \<open>maxRequests = 5\<close> and \<open>windowSeconds = 60\<close> on the
  in-memory cache, six calls at time 1000 ms count 1 to 6 and the sixth is refused; but the
  second call already drops the expiry that the first one set, so the counter never
  resets: at time 62000 ms, after the window has elapsed, the next call counts 7 and is
  refused. Each call below starts in the state the previous one left.
\<close>

theorem memory_rate_limit_never_resets:
  "checkRateLimit MemoryGuard 1000 ''10.0.0.1'' 5 60 emptyGuard
     = (Inr \<lparr> allowed = True, remaining = Some 4, resetTime = 61000 \<rparr>,
        rateLimited ''1'' (Some 61000))
   \<and> checkRateLimit MemoryGuard 1000 ''10.0.0.1'' 5 60 (rateLimited ''1'' (Some 61000))
     = (Inr \<lparr> allowed = True, remaining = Some 3, resetTime = 0 \<rparr>, rateLimited ''2'' None)
   \<and> checkRateLimit MemoryGuard 1000 ''10.0.0.1'' 5 60 (rateLimited ''2'' None)
     = (Inr \<lparr> allowed = True, remaining = Some 2, resetTime = 0 \<rparr>, rateLimited ''3'' None)
   \<and> checkRateLimit MemoryGuard 1000 ''10.0.0.1'' 5 60 (rateLimited ''3'' None)
     = (Inr \<lparr> allowed = True, remaining = Some 1, resetTime = 0 \<rparr>, rateLimited ''4'' None)
   \<and> checkRateLimit MemoryGuard 1000 ''10.0.0.1'' 5 60 (rateLimited ''4'' None)
     = (Inr \<lparr> allowed = True, remaining = Some 0, resetTime = 0 \<rparr>, rateLimited ''5'' None)
   \<and> checkRateLimit MemoryGuard 1000 ''10.0.0.1'' 5 60 (rateLimited ''5'' None)
     = (Inr \<lparr> allowed = False, remaining = Some 0, resetTime = 0 \<rparr>, rateLimited ''6'' None)
   \<and> checkRateLimit MemoryGuard 62000 ''10.0.0.1'' 5 60 (rateLimited ''6'' None)
     = (Inr \<lparr> allowed = False, remaining = Some 0, resetTime = 61000 \<rparr>, rateLimited ''7'' None)"
  by (simp add: memory_guard_defs)

section \<open>Rotation of a tenant without an active key\<close>

text \<open>
  \<open>rotateKeys\<close> decides on what \<open>getActiveKey\<close> returns. When that is no key (the
  provider's listing holds no ACTIVE key, or the listing fails, which \<open>getAllKeys\<close>
  treats as empty), a call without \<open>force = true\<close> fails with the "no active key" error
  after the listing alone: no identifier is drawn and \<open>createKey\<close> is not called. With
  \<open>force = true\<close> it draws a fresh identifier, calls \<open>createKey\<close> with it and, when the
  provider creates the key, succeeds and returns that identifier as \<open>newKeyId\<close>.
\<close>

lemma rotateKeys_no_listed_active_key:
  assumes "fst (getActiveKey S (rq_tenantId rq) w) = Inr None"
  shows "(rq_force rq \<noteq> Some True \<longrightarrow>
            rotateKeys S now rq w
              = (Inl (Error ''Key rotation failed: No active key found for rotation''),
                 w\<lparr>w_provider := snd (listKeys_p (secretsProvider S) (w_provider w))\<rparr>))
       \<and> (rq_force rq = Some True
            \<and> fst (createKey_p (secretsProvider S) (generateV7 S (w_uuids w)) None None
                    (snd (listKeys_p (secretsProvider S) (w_provider w)))) = Inr key \<longrightarrow>
            rotateKeys S now rq w
              = (Inr \<lparr> kr_oldKeyId = [], kr_newKeyId = generateV7 S (w_uuids w),
                        kr_rotationDate = now, kr_archivedKeys = [] \<rparr>,
                 \<lparr> w_provider = snd (createKey_p (secretsProvider S) (generateV7 S (w_uuids w)) None None
                                       (snd (listKeys_p (secretsProvider S) (w_provider w)))),
                   w_uuids = Suc (w_uuids w) \<rparr>))"
proof -
  obtain w1 where g: "getActiveKey S (rq_tenantId rq) w = (Inr None, w1)"
    and w1: "w1 = w\<lparr>w_provider := snd (listKeys_p (secretsProvider S) (w_provider w))\<rparr>"
    using assms getActiveKey_state[of S "rq_tenantId rq" w]
    by (cases "getActiveKey S (rq_tenantId rq) w") auto
  show ?thesis
    using g w1
    by (auto simp: rotateKeys_def createEncryptionKey_def uuid_generateV7_def liftP_def io_defs
          Let_def split: prod.splits sum.splits)
qed

text \<open>
  Claim C5: the code departs from it for a tenant that has no key while another tenant
  has one. \<open>getAllKeys\<close> derives the tenant's paths and never uses them; it lists every
  key of the provider, so the "active key for tenant" is the first ACTIVE key of any
  tenant. On a provider that keeps its keys: tenant A stores an encrypted secret, which
  creates A's key; tenant B (a valid identifier, different from A) has created nothing.
  \<open>rotateKeys\<close> for B with \<open>force\<close> \<open>false\<close> or absent does not fail: it reports A's key as
  the old key and creates a new one. On the empty provider the same call fails with the
  "no active key" error and the forced call succeeds, as the claim has it.
\<close>

theorem rotateKeys_rotates_another_tenants_key:
  "UUID7_isValid tenantB \<and> tenantB \<noteq> tenantA
   \<and> map_sum id (\<lambda>r. (sr_tenantId r, sr_keyId r))
        (fst (encryptAndStoreSecret MemEngine 10 tenantA ''db-pass'' ''s3cr3t'' None None
                emptyMemWorld))
     = Inr (tenantA, Some ''01890a5d-ac96-7000-8000-000000000001'')
   \<and> fst (rotateKeys MemEngine 20 \<lparr> rq_tenantId = tenantB, rq_force = Some False \<rparr>
            (snd (encryptAndStoreSecret MemEngine 10 tenantA ''db-pass'' ''s3cr3t'' None None
                    emptyMemWorld)))
     = Inr \<lparr> kr_oldKeyId = ''01890a5d-ac96-7000-8000-000000000001'',
              kr_newKeyId = ''01890a5d-ac96-7000-8000-000000000002'',
              kr_rotationDate = 20, kr_archivedKeys = [] \<rparr>
   \<and> fst (rotateKeys MemEngine 20 \<lparr> rq_tenantId = tenantB, rq_force = None \<rparr>
            (snd (encryptAndStoreSecret MemEngine 10 tenantA ''db-pass'' ''s3cr3t'' None None
                    emptyMemWorld)))
     = Inr \<lparr> kr_oldKeyId = ''01890a5d-ac96-7000-8000-000000000001'',
              kr_newKeyId = ''01890a5d-ac96-7000-8000-000000000002'',
              kr_rotationDate = 20, kr_archivedKeys = [] \<rparr>
   \<and> map ki_id (mp_keys (w_provider
        (snd (rotateKeys MemEngine 20 \<lparr> rq_tenantId = tenantB, rq_force = Some False \<rparr>
           (snd (encryptAndStoreSecret MemEngine 10 tenantA ''db-pass'' ''s3cr3t'' None None
                   emptyMemWorld))))))
     = [''01890a5d-ac96-7000-8000-000000000001'', ''01890a5d-ac96-7000-8000-000000000002'']
   \<and> fst (rotateKeys MemEngine 20 \<lparr> rq_tenantId = tenantB, rq_force = Some False \<rparr>
            emptyMemWorld)
     = Inl (Error ''Key rotation failed: No active key found for rotation'')
   \<and> map ki_id (mp_keys (w_provider
        (snd (rotateKeys MemEngine 20 \<lparr> rq_tenantId = tenantB, rq_force = Some False \<rparr>
                emptyMemWorld)))) = []
   \<and> fst (rotateKeys MemEngine 20 \<lparr> rq_tenantId = tenantB, rq_force = Some True \<rparr>
            emptyMemWorld)
     = Inr \<lparr> kr_oldKeyId = [], kr_newKeyId = ''01890a5d-ac96-7000-8000-000000000000'',
              kr_rotationDate = 20, kr_archivedKeys = [] \<rparr>"
  by code_simp

section \<open>The provider factory\<close>

text \<open>
  Claim C2 (as stated, fails on the code). The selector \<open>foo\<close> names no backend at all,
  yet the factory does not fail: it falls back to Vault and returns a ready provider.
\<close>

theorem createProvider_unknown_selector_falls_back:
  "createProvider placeholderClient (Some ''foo'') (Some ''dev-token'') () 0 = Inr readyVault"
  by code_simp

text \<open>
  Claim C2, amended. For the selectors \<open>aws\<close>, \<open>azure\<close>, \<open>gcp\<close> and \<open>local\<close>, whose
  backends are not implemented, \<open>createProvider\<close> fails at once with a "not implemented
  yet" error. For every other selector (unset, \<open>vault\<close>, or any unrecognised value) it
  constructs the Vault provider, which fails at construction exactly when no Vault token
  is configured.
\<close>

theorem createProvider_by_selector:
  "(env = Some ''aws'' \<longrightarrow> createProvider C env token b clock
        = Inl (Error ''AWS Secrets Manager provider not implemented yet''))
   \<and> (env = Some ''azure'' \<longrightarrow> createProvider C env token b clock
        = Inl (Error ''Azure Key Vault provider not implemented yet''))
   \<and> (env = Some ''gcp'' \<longrightarrow> createProvider C env token b clock
        = Inl (Error ''GCP Secret Manager provider not implemented yet''))
   \<and> (env = Some ''local'' \<longrightarrow> createProvider C env token b clock
        = Inl (Error ''Local secrets provider not implemented yet''))
   \<and> (env \<notin> {Some ''aws'', Some ''azure'', Some ''gcp'', Some ''local''} \<longrightarrow>
        createProvider C env token b clock
        = (if truthy token
           then Inr \<lparr> v_token = token, v_isInitialized = True, v_status = HEALTHY,
                      v_client = snd (vc_health C b), v_clock = clock \<rparr>
           else Inl (Error ''Vault initialization failed: Vault authentication failed: Vault token not provided'')))"
  by (auto simp: createProvider_def getProviderTypeFromConfig_def providerTypeValues_def
        createVaultProvider_def initialize_def authenticate_def authenticateWithToken_def
        healthCheck_def setStatus_def liftC_def newVaultSecretsProvider_def io_defs Let_def
        split: option.splits prod.splits sum.splits)

theorem createProvider_by_selector_witness:
  "createProvider placeholderClient (Some ''aws'') (Some ''dev-token'') () 0
     = Inl (Error ''AWS Secrets Manager provider not implemented yet'')
   \<and> createProvider placeholderClient (Some ''azure'') (Some ''dev-token'') () 0
     = Inl (Error ''Azure Key Vault provider not implemented yet'')
   \<and> createProvider placeholderClient (Some ''gcp'') (Some ''dev-token'') () 0
     = Inl (Error ''GCP Secret Manager provider not implemented yet'')
   \<and> createProvider placeholderClient (Some ''local'') (Some ''dev-token'') () 0
     = Inl (Error ''Local secrets provider not implemented yet'')
   \<and> createProvider placeholderClient None (Some ''dev-token'') () 0 = Inr readyVault
   \<and> createProvider placeholderClient (Some ''vault'') None () 0
     = Inl (Error ''Vault initialization failed: Vault authentication failed: Vault token not provided'')"
proof -
  note T = createProvider_by_selector[where C = placeholderClient and b = "()" and clock = 0]
  have n: "(None :: string option) \<notin> {Some ''aws'', Some ''azure'', Some ''gcp'', Some ''local''}"
    "Some ''vault'' \<notin> {Some ''aws'', Some ''azure'', Some ''gcp'', Some ''local''}"
    by simp_all
  from T[where env = "Some ''aws''" and token = "Some ''dev-token''"]
       T[where env = "Some ''azure''" and token = "Some ''dev-token''"]
       T[where env = "Some ''gcp''" and token = "Some ''dev-token''"]
       T[where env = "Some ''local''" and token = "Some ''dev-token''"]
       T[where env = None and token = "Some ''dev-token''"]
       T[where env = "Some ''vault''" and token = None] n
  show ?thesis by (simp add: readyVault_def)
qed

section \<open>The tenant identifier inside the returned metadata\<close>

text \<open>
  Claim C10. In every secret returned by \<open>storeSecret\<close>, \<open>encryptAndStoreSecret\<close>,
  \<open>getSecret\<close> or \<open>listSecrets\<close>, the \<open>tenantId\<close> of the metadata equals the \<open>id\<close> of
  that metadata: for the two store operations this is the freshly generated secret id,
  for \<open>getSecret\<close> the id of the stored metadata record. The caller's tenant id only
  appears in the \<open>tenantId\<close> of the response itself.
\<close>

theorem metadata_tenantId_is_secret_id:
  "(fst (storeSecret S now t name val ex tags w) = Inr r1 \<longrightarrow>
      vm_tenantId (sr_metadata r1) = vm_id (sr_metadata r1)
      \<and> vm_id (sr_metadata r1) = sr_id r1
      \<and> sr_id r1 = generateV7 S (w_uuids w) \<and> sr_tenantId r1 = t)
   \<and> (fst (encryptAndStoreSecret S now t name val ex tags w) = Inr r2 \<longrightarrow>
      vm_tenantId (sr_metadata r2) = vm_id (sr_metadata r2)
      \<and> vm_id (sr_metadata r2) = sr_id r2
      \<and> sr_id r2 = generateV7 S (w_uuids w) \<and> sr_tenantId r2 = t)
   \<and> (fst (getSecret S t secretId w) = Inr r3 \<longrightarrow>
      vm_tenantId (sr_metadata r3) = vm_id (sr_metadata r3)
      \<and> (\<exists>secret metadata.
            fst (getSecret_p (secretsProvider S)
                   (tp_secrets (getTenantPaths_p (secretsProvider S) t) @ ''/'' @ secretId)
                   (w_provider w)) = Inr secret
            \<and> sd_metadata secret = Some metadata \<and> vm_tenantId (sr_metadata r3) = sm_id metadata)
      \<and> sr_tenantId r3 = t)
   \<and> (fst (listSecrets S t w) = Inr r4 \<longrightarrow>
      (\<forall>m \<in> set (sl_secrets r4). vm_tenantId m = vm_id m) \<and> sl_tenantId r4 = t)"
proof -
  have a: "fst (storeSecret S now t name val ex tags w) = Inr r1 \<Longrightarrow> vm_tenantId (sr_metadata r1) = vm_id (sr_metadata r1)
      \<and> vm_id (sr_metadata r1) = sr_id r1
      \<and> sr_id r1 = generateV7 S (w_uuids w) \<and> sr_tenantId r1 = t"
    by (auto simp: storeSecret_def validateUUID7_def uuid_generateV7_def liftP_def
          convertToVaultMetadata_def io_defs Let_def split: if_splits prod.splits sum.splits)
  have b: "fst (encryptAndStoreSecret S now t name val ex tags w) = Inr r2 \<Longrightarrow> vm_tenantId (sr_metadata r2) = vm_id (sr_metadata r2)
      \<and> vm_id (sr_metadata r2) = sr_id r2
      \<and> sr_id r2 = generateV7 S (w_uuids w) \<and> sr_tenantId r2 = t"
    by (auto simp: encryptAndStoreSecret_def validateUUID7_def uuid_generateV7_def liftP_def
          convertToVaultMetadata_def io_defs Let_def split: if_splits prod.splits sum.splits)
  have c: "fst (getSecret S t secretId w) = Inr r3 \<Longrightarrow> vm_tenantId (sr_metadata r3) = vm_id (sr_metadata r3)
      \<and> (\<exists>secret metadata.
            fst (getSecret_p (secretsProvider S)
                   (tp_secrets (getTenantPaths_p (secretsProvider S) t) @ ''/'' @ secretId)
                   (w_provider w)) = Inr secret
            \<and> sd_metadata secret = Some metadata \<and> vm_tenantId (sr_metadata r3) = sm_id metadata)
      \<and> sr_tenantId r3 = t"
    by (auto simp: getSecret_def validateUUID7_def liftP_def metadataOf_def
          convertToVaultMetadata_def io_defs Let_def
          split: if_splits prod.splits sum.splits option.splits)
  have d: "fst (listSecrets S t w) = Inr r4 \<Longrightarrow> (\<forall>m \<in> set (sl_secrets r4). vm_tenantId m = vm_id m) \<and> sl_tenantId r4 = t"
    by (auto simp: listSecrets_def validateUUID7_def liftP_def
          convertToVaultMetadata_def io_defs Let_def
          split: if_splits prod.splits sum.splits option.splits)
  from a b c d show ?thesis by blast
qed

theorem metadata_tenantId_is_secret_id_witness:
  "(\<exists>r1. fst (storeSecret MemEngine 10 tenantA ''api-token'' ''ghp_abc'' None None emptyMemWorld)
            = Inr r1
        \<and> vm_tenantId (sr_metadata r1) = sr_id r1
        \<and> sr_id r1 = ''01890a5d-ac96-7000-8000-000000000000'' \<and> sr_tenantId r1 = tenantA)
   \<and> (\<exists>r2. fst (encryptAndStoreSecret MemEngine 10 tenantA ''db-pass'' ''s3cr3t'' None None
                  emptyMemWorld) = Inr r2
        \<and> vm_tenantId (sr_metadata r2) = sr_id r2
        \<and> sr_id r2 = ''01890a5d-ac96-7000-8000-000000000000'' \<and> sr_tenantId r2 = tenantA)
   \<and> (\<exists>r3. fst (getSecret MemEngine tenantA ''01890a5d-ac96-7000-8000-000000000000''
                  (snd (storeSecret MemEngine 10 tenantA ''api-token'' ''ghp_abc'' None None
                          emptyMemWorld))) = Inr r3
        \<and> vm_tenantId (sr_metadata r3) = vm_id (sr_metadata r3) \<and> sr_tenantId r3 = tenantA)
   \<and> (\<exists>r4. fst (listSecrets MemEngine tenantA
                  (snd (storeSecret MemEngine 10 tenantA ''api-token'' ''ghp_abc'' None None
                          emptyMemWorld))) = Inr r4
        \<and> length (sl_secrets r4) = 1
        \<and> list_all (\<lambda>m. vm_tenantId m = vm_id m) (sl_secrets r4))"
proof -
  let ?w1 = "snd (storeSecret MemEngine 10 tenantA ''api-token'' ''ghp_abc'' None None emptyMemWorld)"
  have "\<not> isl (fst (storeSecret MemEngine 10 tenantA ''api-token'' ''ghp_abc'' None None emptyMemWorld))"
    by code_simp
  then obtain r1 where
    r1: "fst (storeSecret MemEngine 10 tenantA ''api-token'' ''ghp_abc'' None None emptyMemWorld) = Inr r1"
    by (cases "fst (storeSecret MemEngine 10 tenantA ''api-token'' ''ghp_abc'' None None emptyMemWorld)") auto
  have "\<not> isl (fst (encryptAndStoreSecret MemEngine 10 tenantA ''db-pass'' ''s3cr3t'' None None emptyMemWorld))"
    by code_simp
  then obtain r2 where
    r2: "fst (encryptAndStoreSecret MemEngine 10 tenantA ''db-pass'' ''s3cr3t'' None None emptyMemWorld) = Inr r2"
    by (cases "fst (encryptAndStoreSecret MemEngine 10 tenantA ''db-pass'' ''s3cr3t'' None None emptyMemWorld)") auto
  have "\<not> isl (fst (getSecret MemEngine tenantA ''01890a5d-ac96-7000-8000-000000000000'' ?w1))"
    by code_simp
  then obtain r3 where
    r3: "fst (getSecret MemEngine tenantA ''01890a5d-ac96-7000-8000-000000000000'' ?w1) = Inr r3"
    by (cases "fst (getSecret MemEngine tenantA ''01890a5d-ac96-7000-8000-000000000000'' ?w1)") auto
  have l4: "map_sum id (\<lambda>r. length (sl_secrets r)) (fst (listSecrets MemEngine tenantA ?w1)) = Inr 1"
    by code_simp
  then obtain r4 where
    r4: "fst (listSecrets MemEngine tenantA ?w1) = Inr r4" and n4: "length (sl_secrets r4) = 1"
    by (cases "fst (listSecrets MemEngine tenantA ?w1)") auto
  have g: "generateV7 MemEngine (w_uuids emptyMemWorld) = ''01890a5d-ac96-7000-8000-000000000000''"
    by code_simp
  note T = metadata_tenantId_is_secret_id[where S = MemEngine and t = tenantA and w = emptyMemWorld
      and now = 10 and ex = None and tags = None]
  note U = metadata_tenantId_is_secret_id[where S = MemEngine and t = tenantA and w = ?w1
      and secretId = "''01890a5d-ac96-7000-8000-000000000000''" and ?r3.0 = r3 and ?r4.0 = r4]
  from T[where name = "''api-token''" and val = "''ghp_abc''" and ?r1.0 = r1] r1 g
  have a: "vm_tenantId (sr_metadata r1) = sr_id r1
        \<and> sr_id r1 = ''01890a5d-ac96-7000-8000-000000000000'' \<and> sr_tenantId r1 = tenantA"
    by simp
  from T[where name = "''db-pass''" and val = "''s3cr3t''" and ?r2.0 = r2] r2 g
  have b: "vm_tenantId (sr_metadata r2) = sr_id r2
        \<and> sr_id r2 = ''01890a5d-ac96-7000-8000-000000000000'' \<and> sr_tenantId r2 = tenantA"
    by simp
  from U r3 have c: "vm_tenantId (sr_metadata r3) = vm_id (sr_metadata r3) \<and> sr_tenantId r3 = tenantA"
    by simp
  from U r4 have d: "list_all (\<lambda>m. vm_tenantId m = vm_id m) (sl_secrets r4)"
    by (simp add: list_all_iff)
  from a b c d r1 r2 r3 r4 n4 show ?thesis by blast
qed

section \<open>Failure handling of the abuse guard\<close>







section \<open>Decryption resolves the record's own key\<close>

text \<open>
  What \<open>decryptSecret\<close> does with a record the provider returns (with its metadata), for
  a valid tenant: a non-empty plaintext \<open>value\<close> is returned verbatim; without one, the
  record's own ciphertext, iv, algorithm and \<open>keyId\<close> are handed to the provider's
  \<open>decrypt\<close>. The key list and the active key are never consulted.
\<close>

lemma decryptSecret_reads_record:
  assumes "UUID7_isValid tenantId"
    and "getSecret_p (secretsProvider S)
           (tp_secrets (getTenantPaths_p (secretsProvider S) tenantId) @ ''/'' @ secretId)
           (w_provider w) = (Inr secret, s')"
    and "sd_metadata secret = Some metadata"
  shows "(sd_value secret = Some v \<and> v \<noteq> [] \<longrightarrow>
            decryptSecret S tenantId secretId w = (Inr v, w\<lparr>w_provider := s'\<rparr>))
       \<and> (\<not> truthy (sd_value secret) \<and> sd_encryptedData secret = Some enc
            \<and> ed_ciphertext enc \<noteq> [] \<and> ed_keyId enc \<noteq> [] \<longrightarrow>
            decryptSecret S tenantId secretId w
              = (case decrypt_p (secretsProvider S)
                        \<lparr> ed_ciphertext = ed_ciphertext enc,
                          ed_iv = Some (case ed_iv enc of Some iv \<Rightarrow> iv | None \<Rightarrow> []),
                          ed_algorithm = ed_algorithm enc,
                          ed_keyId = ed_keyId enc \<rparr> s' of
                   (Inr plaintext, s'') \<Rightarrow> (Inr plaintext, w\<lparr>w_provider := s''\<rparr>)
                 | (Inl e, s'') \<Rightarrow>
                     (Inl (Error (''Secret decryption failed: '' @ message e)),
                      w\<lparr>w_provider := s''\<rparr>)))"
proof -
  have a: "decryptSecret S tenantId secretId w = (Inr v, w\<lparr>w_provider := s'\<rparr>)"
    if "sd_value secret = Some v" "v \<noteq> []"
    using assms that
    by (simp add: decryptSecret_def getSecret_def validateUUID7_def metadataOf_def liftP_def
          io_defs Let_def)
  have b: "decryptSecret S tenantId secretId w
              = (case decrypt_p (secretsProvider S)
                        \<lparr> ed_ciphertext = ed_ciphertext enc,
                          ed_iv = Some (case ed_iv enc of Some iv \<Rightarrow> iv | None \<Rightarrow> []),
                          ed_algorithm = ed_algorithm enc,
                          ed_keyId = ed_keyId enc \<rparr> s' of
                   (Inr plaintext, s'') \<Rightarrow> (Inr plaintext, w\<lparr>w_provider := s''\<rparr>)
                 | (Inl e, s'') \<Rightarrow>
                     (Inl (Error (''Secret decryption failed: '' @ message e)),
                      w\<lparr>w_provider := s''\<rparr>))"
    if "\<not> truthy (sd_value secret)" "sd_encryptedData secret = Some enc"
      "ed_ciphertext enc \<noteq> []" "ed_keyId enc \<noteq> []"
    using assms that
    by (simp add: decryptSecret_def getSecret_def validateUUID7_def metadataOf_def liftP_def
          io_defs Let_def split: prod.splits sum.splits)
  show ?thesis
    apply (intro conjI impI)
    subgoal by (elim conjE, rule a)
    subgoal by (elim conjE, rule b)
    done
qed

text \<open>
  Claim C3: the code departs from it for a secret whose value is the empty string.
  \<open>storeSecret\<close> accepts \<open>''\<close>, stores a record whose \<open>value\<close> is \<open>''\<close> and returns it.
  \<open>getSecret\<close> tests \<open>secret.value\<close> for truthiness, so it takes that record for one
  without a value, finds no encrypted fields either and throws "Secret not found";
  \<open>decryptSecret\<close> surfaces the error where the claim has it return the stored value.
  On the same engine the encrypted path returns the empty string it was given, a
  non-empty plaintext value is returned verbatim, and a secret encrypted under the first
  key is still decrypted after a rotation.
\<close>

theorem decryptSecret_empty_value_not_returned:
  "map_sum id sr_value
       (fst (storeSecret MemEngine 10 tenantA ''empty'' [] None None emptyMemWorld))
     = Inr (Some [])
   \<and> map_of (mp_secrets (w_provider
       (snd (storeSecret MemEngine 10 tenantA ''empty'' [] None None emptyMemWorld))))
     ''secret/data/tenants/01890a5d-ac96-774b-bcce-b302099a8057/secrets/01890a5d-ac96-7000-8000-000000000000''
     = Some \<lparr> sd_value = Some [], sd_encryptedData = None,
              sd_metadata = Some \<lparr> sm_id = ''01890a5d-ac96-7000-8000-000000000000'',
                sm_name = ''empty'',
                sm_path = ''secret/data/tenants/01890a5d-ac96-774b-bcce-b302099a8057/secrets/01890a5d-ac96-7000-8000-000000000000'',
                sm_size = 0, sm_createdAt = 10, sm_updatedAt = 10, sm_expiresAt = None,
                sm_tags = None \<rparr> \<rparr>
   \<and> fst (decryptSecret MemEngine tenantA ''01890a5d-ac96-7000-8000-000000000000''
            (snd (storeSecret MemEngine 10 tenantA ''empty'' [] None None emptyMemWorld)))
     = Inl (Error ''Secret decryption failed: Secret retrieval failed: Secret not found: 01890a5d-ac96-7000-8000-000000000000'')
   \<and> fst (decryptSecret MemEngine tenantA ''01890a5d-ac96-7000-8000-000000000000''
            (snd (encryptAndStoreSecret MemEngine 10 tenantA ''empty'' [] None None emptyMemWorld)))
     = Inr []
   \<and> fst (decryptSecret MemEngine tenantA ''01890a5d-ac96-7000-8000-000000000000''
            (snd (storeSecret MemEngine 10 tenantA ''api-token'' ''ghp_abc'' None None emptyMemWorld)))
     = Inr ''ghp_abc''
   \<and> fst (decryptSecret MemEngine tenantA ''01890a5d-ac96-7000-8000-000000000000''
            (snd (rotateKeys MemEngine 20 \<lparr> rq_tenantId = tenantA, rq_force = None \<rparr>
               (snd (encryptAndStoreSecret MemEngine 10 tenantA ''db-pass'' ''s3cr3t'' None None
                       emptyMemWorld)))))
     = Inr ''s3cr3t''"
  by code_simp

section \<open>Eviction of archived keys\<close>





















end
